theory Spec2Isabelle
  imports Main "HOL-Library.Sublist"
begin

section \<open>Python strings\<close>

text \<open>
  A Python \<open>str\<close> is a sequence of Unicode code points, and \<open>len\<close>, slicing and the
  character classes of \<open>re\<close> all count code points. A string is therefore a list of
  code points; \<open>str\<close> embeds an ASCII literal.
\<close>

type_synonym pychar = nat
type_synonym pystr = "pychar list"

definition str :: "string \<Rightarrow> pystr" where
  "str cs = map of_char cs"

text \<open>The double quote, which a string literal of the theory cannot hold.\<close>

definition dq :: pystr where
  "dq = [34]"

text \<open>\<open>s.startswith(p)\<close> and \<open>s.endswith(p)\<close>.\<close>

definition startswith :: "pystr \<Rightarrow> pystr \<Rightarrow> bool" where
  "startswith s p = prefix p s"

definition endswith :: "pystr \<Rightarrow> pystr \<Rightarrow> bool" where
  "endswith s p = suffix p s"

text \<open>
  \<open>s.lstrip(chars)\<close>, \<open>s.rstrip(chars)\<close> and \<open>s.strip(chars)\<close>: the argument is a set
  of characters, every leading (trailing) character in the set is removed.
\<close>

definition lstrip :: "pystr \<Rightarrow> pystr \<Rightarrow> pystr" where
  "lstrip chars s = dropWhile (\<lambda>c. c \<in> set chars) s"

definition rstrip :: "pystr \<Rightarrow> pystr \<Rightarrow> pystr" where
  "rstrip chars s = rev (dropWhile (\<lambda>c. c \<in> set chars) (rev s))"

definition strip :: "pystr \<Rightarrow> pystr \<Rightarrow> pystr" where
  "strip chars s = rstrip chars (lstrip chars s)"

text \<open>
  Whitespace, as \<open>str.isspace\<close>, \<open>str.strip()\<close> without argument and \<open>\s\<close> see it:
  the ASCII characters 9 to 13 and 28 to 32, and the Unicode spaces.
\<close>

definition is_space :: "pychar \<Rightarrow> bool" where
  "is_space c \<longleftrightarrow>
     (9 \<le> c \<and> c \<le> 13) \<or> (28 \<le> c \<and> c \<le> 32) \<or> c = 133 \<or> c = 160 \<or> c = 5760 \<or>
     (8192 \<le> c \<and> c \<le> 8202) \<or> c = 8232 \<or> c = 8233 \<or> c = 8239 \<or> c = 8287 \<or> c = 12288"

definition strip_ws :: "pystr \<Rightarrow> pystr" where
  "strip_ws s = rev (dropWhile is_space (rev (dropWhile is_space s)))"

text \<open>\<open>sep.join(parts)\<close>.\<close>

fun join :: "pystr \<Rightarrow> pystr list \<Rightarrow> pystr" where
  "join sep [] = []"
| "join sep [p] = p"
| "join sep (p # q # ps) = p @ sep @ join sep (q # ps)"

text \<open>
  \<open>s.split(sep, maxsplit)\<close>, scanning from the left: \<open>cur\<close> is the reversed text of
  the component being read, \<open>m\<close> the number of splits still allowed (\<open>None\<close> for no
  bound). Python raises \<open>ValueError\<close> on an empty separator; every call of the program
  passes a literal, non-empty separator, and the test \<open>sep \<noteq> []\<close> only keeps the
  scan well-founded.
\<close>

function split_from :: "pystr \<Rightarrow> nat option \<Rightarrow> pystr \<Rightarrow> pystr \<Rightarrow> pystr list" where
  "split_from sep m cur [] = [rev cur]"
| "split_from sep m cur (c # s) =
     (if m \<noteq> Some 0 \<and> sep \<noteq> [] \<and> prefix sep (c # s)
      then rev cur # split_from sep (map_option (\<lambda>k. k - 1) m) [] (drop (length sep) (c # s))
      else split_from sep m (c # cur) s)"
  by pat_completeness auto
termination
  by (relation "measure (\<lambda>(sep, m, cur, s). length s)") auto

definition split :: "pystr \<Rightarrow> pystr \<Rightarrow> nat option \<Rightarrow> pystr list" where
  "split s sep maxsplit = split_from sep maxsplit [] s"

section \<open>Storage prefix resolver\<close>

subsection \<open>The application (\<open>src/app\<close>): the stage is resolved from the volume path\<close>

record stage_row =
  STAGE_NAME :: pystr
  DATABASE_NAME :: pystr
  SCHEMA_NAME :: pystr
  STAGE_URL :: pystr

text \<open>\<open>ev_df['S3_PATH'].iloc[0].rstrip("/*").rstrip("/")\<close>, also applied to a stage URL.\<close>

definition normalize_path :: "pystr \<Rightarrow> pystr" where
  "normalize_path p = rstrip (str ''/'') (rstrip (str ''/*'') p)"

text \<open>The test of the resolving loop on one (normalised) candidate.\<close>

definition stage_matches :: "pystr \<Rightarrow> pystr \<Rightarrow> bool" where
  "stage_matches ev_s3_path stage_url_candidate \<longleftrightarrow>
     ev_s3_path = stage_url_candidate \<or> startswith ev_s3_path (stage_url_candidate @ str ''/'')"

text \<open>
  The loop over the stage table: the first row that matches is taken (\<open>break\<close>); the
  result is the pair \<open>(resolved_stage, stage_url)\<close>, or \<open>None\<close> when the loop ends
  with \<open>resolved_stage\<close> still unset and the request stops.
\<close>

fun resolve_stage :: "stage_row list \<Rightarrow> pystr \<Rightarrow> (pystr \<times> pystr) option" where
  "resolve_stage [] ev_s3_path = None"
| "resolve_stage (row # rows) ev_s3_path =
     (let stage_url_candidate = normalize_path (STAGE_URL row) in
      if stage_matches ev_s3_path stage_url_candidate
      then Some (DATABASE_NAME row @ str ''.'' @ SCHEMA_NAME row @ str ''.'' @ STAGE_NAME row,
                 stage_url_candidate)
      else resolve_stage rows ev_s3_path)"

definition relative_from_ev :: "pystr \<Rightarrow> pystr \<Rightarrow> pystr" where
  "relative_from_ev ev_s3_path stage_url =
     (if ev_s3_path = stage_url then []
      else if startswith ev_s3_path (stage_url @ str ''/'')
      then drop (length stage_url + 1) ev_s3_path
      else [])"

text \<open>\<open>base_location\<close> is \<open>None\<close> when the DDL has no such assignment.\<close>

definition relative_prefix :: "pystr \<Rightarrow> pystr option \<Rightarrow> pystr" where
  "relative_prefix rel base_location =
     (let parts = (if rel \<noteq> [] then [rstrip (str ''/'') rel] else []) @
                  (case base_location of
                     None \<Rightarrow> []
                   | Some b \<Rightarrow> if b \<noteq> [] then [rstrip (str ''/'') (lstrip (str ''/'') b)] else [])
      in strip (str ''/'') (join (str ''/'') (filter (\<lambda>p. p \<noteq> []) parts)))"

text \<open>
  \<open>re.escape\<close> (Python 3.7 and later): a backslash (code point 92) before each
  character of \<open>()[]{}?*+-|^$.&~#\<close>, the backslash, the space, tab, newline, carriage
  return, vertical tab and form feed.
\<close>

definition re_special :: "pychar \<Rightarrow> bool" where
  "re_special c \<longleftrightarrow> c \<in> set (str ''()[]{}?*+-|^$.&~# '') \<or> c \<in> {92, 9, 10, 13, 11, 12}"

definition re_escape :: "pystr \<Rightarrow> pystr" where
  "re_escape s = concat (map (\<lambda>c. if re_special c then [92, c] else [c]) s)"

text \<open>
  The pattern handed to \<open>LS\<close>. The source computes \<open>escaped = re.escape(relative_prefix)\<close>
  and then formats the pattern from \<open>relative_prefix\<close>; \<open>escaped\<close> is never read.
\<close>

definition ls_pattern :: "pystr \<Rightarrow> pystr" where
  "ls_pattern rel_prefix =
     (if rel_prefix \<noteq> []
      then (let escaped = re_escape rel_prefix in str ''^'' @ rel_prefix @ str ''.*'')
      else str ''.*'')"

subsection \<open>The stand-alone script (\<open>src\<close>): the stage is chosen by the operator\<close>

text \<open>\<open>ev_s3_path.rstrip("/").rstrip("/").rstrip("/*").rstrip("/")\<close>.\<close>

definition normalize_path_root :: "pystr \<Rightarrow> pystr" where
  "normalize_path_root p =
     rstrip (str ''/'') (rstrip (str ''/*'') (rstrip (str ''/'') (rstrip (str ''/'') p)))"

text \<open>
  The part of the volume path below the chosen stage; \<open>stage_url\<close> has been stripped of
  trailing separators. When the stage URL with a separator is not a prefix, the script
  takes whatever follows the third separator of the volume path
  (\<open>ev_s3_path.split('/', 3)[-1]\<close>).
\<close>

definition relative_from_ev_root :: "pystr \<Rightarrow> pystr \<Rightarrow> pystr" where
  "relative_from_ev_root ev_s3_path stage_url =
     (let stage_url_slash =
            (if \<not> endswith stage_url (str ''/'') then stage_url @ str ''/'' else stage_url)
      in if startswith ev_s3_path stage_url_slash
         then drop (length stage_url_slash) ev_s3_path
         else last (split ev_s3_path (str ''/'') (Some 3)))"

text \<open>Here \<open>base_location\<close> is known to be non-empty when the prefix is built.\<close>

definition relative_prefix_root :: "pystr \<Rightarrow> pystr \<Rightarrow> pystr" where
  "relative_prefix_root rel base_location =
     (if base_location \<noteq> []
      then join (str ''/'') [rstrip (str ''/'') rel, lstrip (str ''/'') base_location]
      else rel)"

definition ls_pattern_root :: "pystr \<Rightarrow> pystr" where
  "ls_pattern_root rel_prefix = rel_prefix @ str ''.*''"

section \<open>Exceptions\<close>

text \<open>
  Every exception the program can meet in the code below derives from Python's
  \<open>Exception\<close>, so a handler \<open>except Exception\<close> catches every value of \<open>py_exc\<close>;
  the classes the handlers tell apart are constructors of their own. \<open>message e\<close> is
  \<open>str(e)\<close>. A function that may raise returns \<open>py_exc + 'a\<close>, with \<open>Inl\<close> for the
  exception.
\<close>

datatype exc_class =
  NotImplementedError | ArrowNotImplementedError | AttributeError | IndexError
  | JSONDecodeError | OtherException pystr

datatype py_exc = Exc (exc_class: exc_class) (message: pystr)

definition bind :: "py_exc + 'a \<Rightarrow> ('a \<Rightarrow> py_exc + 'b) \<Rightarrow> py_exc + 'b" where
  "bind r f = (case r of Inl e \<Rightarrow> Inl e | Inr v \<Rightarrow> f v)"

section \<open>Object listing and selection\<close>

text \<open>
  \<open>files_df['LABEL'] = files_df['NAME'] + " | " + files_df['LAST_MODIFIED'].astype(str)\<close>:
  the label shown for a listed object.
\<close>

definition LABEL :: "pystr \<Rightarrow> pystr \<Rightarrow> pystr" where
  "LABEL name last_modified = name @ str '' | '' @ last_modified"

text \<open>
  \<open>selected_file.split(" | ")[0]\<close>: the object name read back from a chosen label.
  \<open>split\<close> never returns an empty list, so the first component exists.
\<close>

definition label_name :: "pystr \<Rightarrow> pystr" where
  "label_name selected_file = hd (split selected_file (str '' | '') None)"

text \<open>
  The path handed to the download: the name read from the label, without the stage URL
  when it starts with it (\<open>stage_url\<close> is never empty in the application once a stage
  is resolved), and without leading separators.
\<close>

definition selected_file_only_path :: "pystr \<Rightarrow> pystr \<Rightarrow> pystr" where
  "selected_file_only_path stage_url selected_file =
     (let p = label_name selected_file in
      if stage_url \<noteq> [] \<and> startswith p stage_url
      then lstrip (str ''/'') (drop (length stage_url) p)
      else lstrip (str ''/'') p)"

section \<open>Summarization adapter\<close>

text \<open>
  The collaborators of the adapter: \<open>json.dumps(record, default=str, ensure_ascii=False)\<close>,
  \<open>str(record)\<close>, and \<open>session.sql(q).to_pandas()\<close>, each of which may raise.
\<close>

record dataframe =
  df_columns :: "pystr list"
  df_rows :: "pystr list list"

record 'r runtime =
  json_dumps :: "'r \<Rightarrow> py_exc + pystr"
  to_str :: "'r \<Rightarrow> py_exc + pystr"
  session_sql :: "pystr \<Rightarrow> py_exc + dataframe"

text \<open>
  The character classes \<open>[\n\r\t]\<close> and \<open>[\x00-\x1f\x7f-\x9f]\<close>; the class \<open>\s\<close> of a
  \<open>str\<close> pattern is \<open>is_space\<close>.
\<close>

definition nrt :: "pychar \<Rightarrow> bool" where
  "nrt c \<longleftrightarrow> c = 10 \<or> c = 13 \<or> c = 9"

definition ctrl :: "pychar \<Rightarrow> bool" where
  "ctrl c \<longleftrightarrow> c \<le> 31 \<or> (127 \<le> c \<and> c \<le> 159)"

text \<open>\<open>s.replace("'", "''")\<close>; the quote is code point 39.\<close>

definition replace_quote :: "pystr \<Rightarrow> pystr" where
  "replace_quote s = concat (map (\<lambda>c. if c = 39 then [39, 39] else [c]) s)"

text \<open>
  \<open>re.sub(r'[class]{n,}', ' ', s)\<close>: scanning from the left, every maximal run of
  characters of the class that has at least \<open>n\<close> characters becomes one space (code
  point 32); a shorter run stays. \<open>[class]+\<close> is the case \<open>n = 1\<close>.
\<close>

function sub_runs :: "(pychar \<Rightarrow> bool) \<Rightarrow> nat \<Rightarrow> pystr \<Rightarrow> pystr" where
  "sub_runs P n [] = []"
| "sub_runs P n (c # s) =
     (if P c
      then (let run = takeWhile P (c # s); rest = dropWhile P (c # s)
            in (if n \<le> length run then [32] else run) @ sub_runs P n rest)
      else c # sub_runs P n s)"
  by pat_completeness auto
termination
  by (relation "measure (\<lambda>(P, n, s). length s)")
     (auto simp: less_Suc_eq_le length_dropWhile_le)


text \<open>The text of the record after the four rewriting steps, before it is cut.\<close>

definition cleanse_text :: "pystr \<Rightarrow> pystr" where
  "cleanse_text s = sub_runs is_space 2 (sub_runs ctrl 1 (sub_runs nrt 1 (replace_quote s)))"

text \<open>
  \<open>s[:max_len]\<close> for a Python integer: a negative bound counts from the end.
\<close>

definition slice_to :: "pystr \<Rightarrow> int \<Rightarrow> pystr" where
  "slice_to s max_len =
     (if 0 \<le> max_len then take (nat max_len) s else take (nat (int (length s) + max_len)) s)"

text \<open>
  The text of the record: \<open>json.dumps\<close>, and \<open>str(record)\<close> when that raises; an
  exception of \<open>str(record)\<close> leaves the function.
\<close>

definition serialize :: "'r runtime \<Rightarrow> 'r \<Rightarrow> py_exc + pystr" where
  "serialize rt record =
     (case json_dumps rt record of Inr s \<Rightarrow> Inr s | Inl e \<Rightarrow> to_str rt record)"

definition cleanse_for_cortex :: "'r runtime \<Rightarrow> 'r \<Rightarrow> int \<Rightarrow> py_exc + pystr" where
  "cleanse_for_cortex rt record max_len =
     bind (serialize rt record) (\<lambda>s. Inr (slice_to (cleanse_text s) max_len))"

text \<open>The statement sent to the service; the line breaks of the source are code point 10.\<close>

definition sql_ai :: "pystr \<Rightarrow> pystr" where
  "sql_ai safe_text =
     [10] @ str ''            SELECT SNOWFLAKE.CORTEX.COMPLETE('' @ [10] @
     str ''                '' @ [39] @ str ''mistral-large'' @ [39] @ str '','' @ [10] @
     str ''                '' @ [39] @ str ''Can you summarize the output here in bullets?: '' @
     safe_text @ [39] @ [10] @
     str ''            ) AS MODEL_OUTPUT;'' @ [10] @ str ''        ''"

text \<open>
  \<open>df.iloc[0][label]\<close> takes the first row and then the entry of the label; on a frame
  without rows the positional indexer raises \<open>IndexError\<close>. \<open>df.iloc[0, 0]\<close> is a
  scalar access, column first and then row: on a frame without columns or without rows
  the array lookup raises \<open>IndexError\<close>, with a message of its own. The rows of a
  frame are as long as its list of columns; the test in \<open>cell\<close> only keeps the lookup
  total on a list that is not a frame.
\<close>

definition positional_out_of_bounds :: py_exc where
  "positional_out_of_bounds = Exc IndexError (str ''single positional indexer is out-of-bounds'')"

definition axis_out_of_bounds :: py_exc where
  "axis_out_of_bounds = Exc IndexError (str ''index 0 is out of bounds for axis 0 with size 0'')"

fun index_of :: "pystr \<Rightarrow> pystr list \<Rightarrow> nat option" where
  "index_of l [] = None"
| "index_of l (c # cs) = (if c = l then Some 0 else map_option Suc (index_of l cs))"

definition cell :: "pystr list \<Rightarrow> nat \<Rightarrow> py_exc + pystr" where
  "cell row j = (if j < length row then Inr (row ! j) else Inl axis_out_of_bounds)"

definition iloc0_label :: "dataframe \<Rightarrow> pystr \<Rightarrow> py_exc + pystr" where
  "iloc0_label df l =
     (case df_rows df of
        [] \<Rightarrow> Inl positional_out_of_bounds
      | row # _ \<Rightarrow>
          (case index_of l (df_columns df) of
             None \<Rightarrow> Inl (Exc (OtherException (str ''KeyError'')) l)
           | Some j \<Rightarrow> cell row j))"

definition iloc00 :: "dataframe \<Rightarrow> py_exc + pystr" where
  "iloc00 df =
     (if df_columns df = [] then Inl axis_out_of_bounds
      else (case df_rows df of
              [] \<Rightarrow> Inl axis_out_of_bounds
            | row # _ \<Rightarrow> cell row 0))"

text \<open>
  The value returned from the response frame: the entry \<open>MODEL_OUTPUT\<close> of the first
  row, and the first cell of the frame when it has no such column.
\<close>

definition model_output :: "dataframe \<Rightarrow> py_exc + pystr" where
  "model_output df_ai =
     (if str ''MODEL_OUTPUT'' \<in> set (df_columns df_ai)
      then iloc0_label df_ai (str ''MODEL_OUTPUT'')
      else iloc00 df_ai)"

text \<open>
  The body of the \<open>try\<close> of \<open>safe_cortex_call\<close>, and the function with its handler,
  which turns every exception into the text \<open>AI summary skipped: ...\<close>.
\<close>

definition cortex_call :: "'r runtime \<Rightarrow> 'r \<Rightarrow> py_exc + pystr" where
  "cortex_call rt record =
     bind (cleanse_for_cortex rt record 3000) (\<lambda>safe_text.
     bind (session_sql rt (sql_ai safe_text)) model_output)"

definition safe_cortex_call :: "'r runtime \<Rightarrow> 'r \<Rightarrow> pystr" where
  "safe_cortex_call rt record =
     (case cortex_call rt record of
        Inr out \<Rightarrow> out
      | Inl e \<Rightarrow> str ''AI summary skipped: '' @ message e)"

section \<open>Record extractors\<close>

subsection \<open>Self-describing (Avro) records\<close>

text \<open>
  The reader is an iterator: \<open>reader k\<close> is what the \<open>k\<close>-th call of \<open>next\<close> gives, a
  record, the end of the file, or an exception of the decoder. Nothing bounds the
  number of records.
\<close>

datatype 'r step = Stop | Rec 'r | Fail py_exc

text \<open>
  \<open>for i, record in enumerate(reader): records.append(record); if i >= 9999999: break\<close>
\<close>

function avro_loop :: "(nat \<Rightarrow> 'r step) \<Rightarrow> nat \<Rightarrow> 'r list \<Rightarrow> py_exc + 'r list" where
  "avro_loop reader i records =
     (case reader i of
        Stop \<Rightarrow> Inr records
      | Fail e \<Rightarrow> Inl e
      | Rec record \<Rightarrow>
          (if 9999999 \<le> i then Inr (records @ [record])
           else avro_loop reader (i + 1) (records @ [record])))"
  by pat_completeness auto
termination
  by (relation "measure (\<lambda>(reader, i, records). 10000000 - i)") auto

declare avro_loop.simps [simp del]

text \<open>Opening the file and creating the reader may raise as well.\<close>

definition avro_records :: "py_exc + (nat \<Rightarrow> 'r step) \<Rightarrow> py_exc + 'r list" where
  "avro_records opened = bind opened (\<lambda>reader. avro_loop reader 0 [])"

subsection \<open>Loose (JSON, NDJSON) records\<close>

datatype json =
  JNull | JBool bool | JInt int | JFloat pystr | JStr pystr
  | JArr "json list" | JObj "(pystr \<times> json) list"

text \<open>
  A text file open for reading: its (decoded, newline-translated) text and the read
  position. \<open>json.load(f)\<close> reads the rest of the file, so it leaves the position at
  the end, whether the text parses or not; \<open>loads\<close> is the parser \<open>json.loads\<close>.
\<close>

record text_file =
  content :: pystr
  pos :: nat

definition open_text :: "pystr \<Rightarrow> text_file" where
  "open_text text = \<lparr>content = text, pos = 0\<rparr>"

definition json_load ::
  "(pystr \<Rightarrow> py_exc + json) \<Rightarrow> text_file \<Rightarrow> text_file \<times> (py_exc + json)" where
  "json_load loads f = (f\<lparr>pos := length (content f)\<rparr>, loads (drop (pos f) (content f)))"

definition seek :: "text_file \<Rightarrow> nat \<Rightarrow> text_file" where
  "seek f p = f\<lparr>pos := p\<rparr>"

text \<open>\<open>for line in f\<close>: the lines from the read position on, each with its newline.\<close>

function lines_of :: "pystr \<Rightarrow> pystr list" where
  "lines_of [] = []"
| "lines_of (c # s) =
     (let l = takeWhile (\<lambda>x. x \<noteq> 10) (c # s) in
      case dropWhile (\<lambda>x. x \<noteq> 10) (c # s) of
        [] \<Rightarrow> [l]
      | nl # rest \<Rightarrow> (l @ [nl]) # lines_of rest)"
  by pat_completeness auto
termination
proof (relation "measure length")
  fix c :: pychar and s l nl rest
  assume "dropWhile (\<lambda>x. x \<noteq> 10) (c # s) = nl # rest"
  then have "length (nl # rest) \<le> length (c # s)"
    by (metis length_dropWhile_le)
  then show "(rest, c # s) \<in> measure length" by simp
qed simp

definition file_lines :: "text_file \<Rightarrow> pystr list" where
  "file_lines f = lines_of (drop (pos f) (content f))"

text \<open>\<open>{"raw_line": line}\<close>\<close>

definition raw_line :: "pystr \<Rightarrow> json" where
  "raw_line line = JObj [(str ''raw_line'', JStr line)]"

text \<open>
  The line loop of the application: a blank line is skipped, a line that parses gives
  its value, any other line is kept as \<open>raw_line\<close>.
\<close>

fun read_lines :: "(pystr \<Rightarrow> py_exc + json) \<Rightarrow> json list \<Rightarrow> pystr list \<Rightarrow> json list" where
  "read_lines loads records [] = records"
| "read_lines loads records (line # ls) =
     (let line = strip_ws line in
      if line = [] then read_lines loads records ls
      else (case loads line of
              Inr v \<Rightarrow> read_lines loads (records @ [v]) ls
            | Inl e \<Rightarrow> read_lines loads (records @ [raw_line line]) ls))"

text \<open>The record a non-blank, stripped line gives in that loop.\<close>

definition line_record :: "(pystr \<Rightarrow> py_exc + json) \<Rightarrow> pystr \<Rightarrow> json" where
  "line_record loads line = (case loads line of Inr v \<Rightarrow> v | Inl e \<Rightarrow> raw_line line)"

text \<open>\<open>obj if isinstance(obj, list) else [obj]\<close>\<close>

definition as_records :: "json \<Rightarrow> json list" where
  "as_records obj = (case obj of JArr xs \<Rightarrow> xs | _ \<Rightarrow> [obj])"

text \<open>
  The JSON branch of the application on the text of the downloaded file. Only
  \<open>json.JSONDecodeError\<close> starts the line loop; it rewinds the file first.
\<close>

definition json_records :: "(pystr \<Rightarrow> py_exc + json) \<Rightarrow> pystr \<Rightarrow> py_exc + json list" where
  "json_records loads text =
     (let (f, r) = json_load loads (open_text text) in
      case r of
        Inr obj \<Rightarrow> Inr (as_records obj)
      | Inl e \<Rightarrow>
          if exc_class e = JSONDecodeError
          then Inr (read_lines loads [] (file_lines (seek f 0)))
          else Inl e)"

text \<open>
  The same branch in the stand-alone script: the file is not rewound before the line
  loop, and a line that does not parse is passed over.
\<close>

fun read_lines_root :: "(pystr \<Rightarrow> py_exc + json) \<Rightarrow> json list \<Rightarrow> pystr list \<Rightarrow> json list" where
  "read_lines_root loads records [] = records"
| "read_lines_root loads records (line # ls) =
     (let line = strip_ws line in
      if line = [] then read_lines_root loads records ls
      else (case loads line of
              Inr v \<Rightarrow> read_lines_root loads (records @ [v]) ls
            | Inl e \<Rightarrow> read_lines_root loads records ls))"

definition json_records_root :: "(pystr \<Rightarrow> py_exc + json) \<Rightarrow> pystr \<Rightarrow> py_exc + json list" where
  "json_records_root loads text =
     (let (f, r) = json_load loads (open_text text) in
      case r of
        Inr obj \<Rightarrow> Inr (as_records obj)
      | Inl e \<Rightarrow>
          if exc_class e = JSONDecodeError
          then Inr (read_lines_root loads [] (file_lines f))
          else Inl e)"

section \<open>Columnar (Parquet) metadata\<close>

text \<open>
  What \<open>pyarrow\<close> gives for a file. Reading an attribute of a statistics object may
  give a value, raise \<open>AttributeError\<close> (the attribute is missing) or raise another
  exception, such as the not-implemented conditions of a physical type; so may reading
  \<open>col.statistics\<close> itself, which is \<open>None\<close> when the chunk has no statistics. The
  type \<open>'v\<close> is the type of the values of statistics.
\<close>

record 'v statistics_obj =
  null_count :: "py_exc + 'v"
  distinct_count :: "py_exc + 'v"
  min_stat :: "py_exc + 'v"
  max_stat :: "py_exc + 'v"
  num_values :: "py_exc + 'v"

record 'v column_chunk =
  path_in_schema :: pystr
  physical_type :: pystr
  compression :: pystr
  encodings :: "pystr list"
  statistics :: "py_exc + 'v statistics_obj option"

record 'v row_group =
  rg_num_rows :: int
  rg_total_byte_size :: int
  rg_columns :: "'v column_chunk list"

record schema_field =
  field_name :: pystr
  field_type :: pystr
  field_nullable :: "bool option"

record 'v file_meta =
  created_by :: "pystr option"
  num_rows :: "int option"
  num_columns :: "int option"
  num_row_groups :: "int option"
  schema_arrow :: "schema_field list"
  metadata :: "py_exc + (pystr \<times> pystr) list option"
  row_groups :: "'v row_group list"

text \<open>The dictionaries the function builds.\<close>

record 'v statistics_dict =
  d_null_count :: "'v option"
  d_distinct_count :: "'v option"
  d_min :: "'v option"
  d_max :: "'v option"
  d_num_values :: "'v option"

record 'v col_info =
  ci_path_in_schema :: pystr
  ci_physical_type :: pystr
  ci_compression :: pystr
  ci_encodings :: "pystr list"
  ci_statistics :: "'v statistics_dict option"

record 'v rg_info =
  ri_num_rows :: int
  ri_total_byte_size :: int
  ri_columns :: "'v col_info list"

record overview =
  o_file_path :: pystr
  o_created_by :: "pystr option"
  o_num_rows :: "int option"
  o_num_columns :: "int option"
  o_num_row_groups :: "int option"

record 'v metadata_dict =
  md_overview :: overview
  md_schema_df :: "schema_field list"
  md_kv :: "pystr \<rightharpoonup> pystr"
  md_row_groups :: "'v rg_info list"

text \<open>\<open>getattr(obj, name, None)\<close>: only \<open>AttributeError\<close> gives the default.\<close>

definition getattr_none :: "py_exc + 'v \<Rightarrow> py_exc + 'v option" where
  "getattr_none a =
     (case a of
        Inr v \<Rightarrow> Inr (Some v)
      | Inl e \<Rightarrow> if exc_class e = AttributeError then Inr None else Inl e)"

text \<open>
  The body of the \<open>try\<close> for one column chunk: the statistics dictionary, \<open>None\<close> when
  the chunk has no statistics, or the first exception met; the entries of the
  dictionary are evaluated in the order written.
\<close>

definition stats_try :: "'v column_chunk \<Rightarrow> py_exc + 'v statistics_dict option" where
  "stats_try col =
     bind (statistics col) (\<lambda>st.
       case st of
         None \<Rightarrow> Inr None
       | Some s \<Rightarrow>
           bind (getattr_none (null_count s)) (\<lambda>nc.
           bind (getattr_none (distinct_count s)) (\<lambda>dc.
           bind (getattr_none (min_stat s)) (\<lambda>mn.
           bind (getattr_none (max_stat s)) (\<lambda>mx.
           bind (getattr_none (num_values s)) (\<lambda>nv.
             Inr (Some \<lparr>d_null_count = nc, d_distinct_count = dc, d_min = mn, d_max = mx,
                        d_num_values = nv\<rparr>)))))))"

text \<open>\<open>except (NotImplementedError, pyarrow.lib.ArrowNotImplementedError)\<close>\<close>

definition not_implemented :: "py_exc \<Rightarrow> bool" where
  "not_implemented e \<longleftrightarrow>
     exc_class e = NotImplementedError \<or> exc_class e = ArrowNotImplementedError"

definition with_statistics :: "'v column_chunk \<Rightarrow> 'v statistics_dict option \<Rightarrow> 'v col_info" where
  "with_statistics col st =
     \<lparr>ci_path_in_schema = path_in_schema col, ci_physical_type = physical_type col,
      ci_compression = compression col, ci_encodings = encodings col, ci_statistics = st\<rparr>"

definition column_info :: "'v column_chunk \<Rightarrow> py_exc + 'v col_info" where
  "column_info col =
     (case stats_try col of
        Inr st \<Rightarrow> Inr (with_statistics col st)
      | Inl e \<Rightarrow> if not_implemented e then Inr (with_statistics col None) else Inl e)"

text \<open>A loop that appends the result for each element and stops at the first exception.\<close>

fun map_exc :: "('a \<Rightarrow> py_exc + 'b) \<Rightarrow> 'a list \<Rightarrow> py_exc + 'b list" where
  "map_exc f [] = Inr []"
| "map_exc f (x # xs) = bind (f x) (\<lambda>y. bind (map_exc f xs) (\<lambda>ys. Inr (y # ys)))"

definition row_group_info :: "'v row_group \<Rightarrow> py_exc + 'v rg_info" where
  "row_group_info rg =
     bind (map_exc column_info (rg_columns rg)) (\<lambda>cols.
       Inr \<lparr>ri_num_rows = rg_num_rows rg, ri_total_byte_size = rg_total_byte_size rg,
            ri_columns = cols\<rparr>)"

text \<open>
  The key-value pairs of the footer, already decoded; a later pair replaces an earlier
  one with the same key, and any exception leaves the dictionary empty.
\<close>

definition kv_of :: "py_exc + (pystr \<times> pystr) list option \<Rightarrow> (pystr \<rightharpoonup> pystr)" where
  "kv_of m = (case m of Inr (Some items) \<Rightarrow> map_of (rev items) | _ \<Rightarrow> Map.empty)"

definition overview_of :: "pystr \<Rightarrow> 'v file_meta \<Rightarrow> overview" where
  "overview_of local_file_path meta =
     \<lparr>o_file_path = local_file_path, o_created_by = created_by meta,
      o_num_rows = num_rows meta, o_num_columns = num_columns meta,
      o_num_row_groups = num_row_groups meta\<rparr>"

text \<open>
  \<open>show_parquet_metadata\<close>: \<open>opened\<close> is the outcome of \<open>pq.ParquetFile(local_file_path)\<close>.
\<close>

definition show_parquet_metadata ::
  "pystr \<Rightarrow> py_exc + 'v file_meta \<Rightarrow> py_exc + 'v metadata_dict" where
  "show_parquet_metadata local_file_path opened =
     bind opened (\<lambda>meta.
     bind (map_exc row_group_info (row_groups meta)) (\<lambda>rgs.
       Inr \<lparr>md_overview = overview_of local_file_path meta, md_schema_df = schema_arrow meta,
            md_kv = kv_of (metadata meta), md_row_groups = rgs\<rparr>))"

text \<open>
  What the specification asks of the extractor, without exceptions: the statistics of a
  column chunk are those its accessors give, and absent when the accessors raise.
\<close>

definition column_view :: "'v column_chunk \<Rightarrow> 'v col_info" where
  "column_view col =
     with_statistics col (case stats_try col of Inr st \<Rightarrow> st | Inl e \<Rightarrow> None)"

definition row_group_view :: "'v row_group \<Rightarrow> 'v rg_info" where
  "row_group_view rg =
     \<lparr>ri_num_rows = rg_num_rows rg, ri_total_byte_size = rg_total_byte_size rg,
      ri_columns = map column_view (rg_columns rg)\<rparr>"

definition metadata_view :: "pystr \<Rightarrow> 'v file_meta \<Rightarrow> 'v metadata_dict" where
  "metadata_view local_file_path meta =
     \<lparr>md_overview = overview_of local_file_path meta, md_schema_df = schema_arrow meta,
      md_kv = kv_of (metadata meta), md_row_groups = map row_group_view (row_groups meta)\<rparr>"

section \<open>The Read File request\<close>

text \<open>
  A record of the list handed to the views and to the summarization adapter: a record
  of an Avro file or a JSON value. The adapter receives such a list, or the metadata of
  a Parquet file.
\<close>

datatype 'r item = Avro 'r | Json json

datatype ('r, 'v) payload = Records "'r item list" | ParquetMetadata "'v metadata_dict"

datatype view_choice = MetadataOnly | SampleDataOnly | Both

text \<open>
  What the request shows, in order. The widgets of a view function are one event with
  the data they display: \<open>RecordsView\<close> for the raw and tabular views of
  \<open>render_json_avro_view\<close>, \<open>MetadataView\<close> for \<open>render_parquet_view\<close>, \<open>SampleData\<close>
  for the sample of a Parquet file; \<open>Text\<close>, \<open>Write\<close>, \<open>Warning\<close> and \<open>Error\<close> are
  \<open>st.text\<close>, \<open>st.write\<close>, \<open>st.warning\<close> and \<open>st.error\<close>.
\<close>

datatype ('r, 'v) ui =
  Text pystr | Write pystr | Warning pystr | Error pystr
  | RecordsView "'r item list" | MetadataView "'v metadata_dict" | SampleData

text \<open>
  The collaborators of one request, each with the outcome it has in this request:
  \<open>tempfile.mkdtemp\<close> (the directory it creates), \<open>session.file.get\<close>, opening and
  decoding the downloaded file as text, \<open>json.loads\<close>, \<open>fastavro.reader\<close>,
  \<open>pq.ParquetFile\<close>, \<open>pd.read_parquet\<close>, and \<open>shutil.rmtree\<close> (\<open>None\<close> when it
  succeeds).
\<close>

record ('r, 'v) request_env =
  e_mkdtemp :: pystr
  e_file_get :: "py_exc + unit"
  e_open_text :: "py_exc + pystr"
  e_loads :: "pystr \<Rightarrow> py_exc + json"
  e_avro_reader :: "py_exc + (nat \<Rightarrow> 'r step)"
  e_parquet_file :: "py_exc + 'v file_meta"
  e_read_parquet :: "py_exc + unit"
  e_rmtree :: "py_exc option"

text \<open>
  A part of the request: what it has shown, and its value or the exception that ended
  it. \<open>call\<close> is a step that shows nothing, \<open>emit\<close> a step that only shows, and
  \<open>seq\<close> runs a second part after a first that did not raise; what the first part has
  shown stays shown when the second raises.
\<close>

definition call :: "py_exc + 'a \<Rightarrow> ('r, 'v) ui list \<times> (py_exc + 'a)" where
  "call r = ([], r)"

definition emit :: "('r, 'v) ui list \<Rightarrow> ('r, 'v) ui list \<times> (py_exc + unit)" where
  "emit us = (us, Inr ())"

definition seq ::
  "('r, 'v) ui list \<times> (py_exc + 'a) \<Rightarrow> ('a \<Rightarrow> ('r, 'v) ui list \<times> (py_exc + 'b))
     \<Rightarrow> ('r, 'v) ui list \<times> (py_exc + 'b)" where
  "seq m f =
     (case m of
        (shown, Inl e) \<Rightarrow> (shown, Inl e)
      | (shown, Inr v) \<Rightarrow> (case f v of (shown', r) \<Rightarrow> (shown @ shown', r)))"

text \<open>
  \<open>render_json_avro_view(records, file_path)\<close> of the application. It reads the file
  again as text. When the text parses, the views show its records and the list of the
  caller is untouched. When the parse fails with \<open>json.JSONDecodeError\<close>, the records of
  the lines are appended to \<open>records\<close>, which is the list of the caller. Any other
  exception is caught and written. The function returns nothing; the first component
  here is the list of the caller after the call, the second what was shown.
\<close>

definition render_json_avro_view ::
  "('r, 'v) request_env \<Rightarrow> 'r item list \<Rightarrow> 'r item list \<times> ('r, 'v) ui list" where
  "render_json_avro_view env records =
     (case bind (e_open_text env) (\<lambda>text. Inr (text, e_loads env text)) of
        Inl e \<Rightarrow>
          (records, [Write (str ''Unable to load JSON: '' @ message e), RecordsView records])
      | Inr (text, Inr obj) \<Rightarrow> (records, [RecordsView (map Json (as_records obj))])
      | Inr (text, Inl e) \<Rightarrow>
          if exc_class e = JSONDecodeError
          then (let appended = records @ map Json (read_lines (e_loads env) [] (lines_of text))
                in (appended, [RecordsView appended]))
          else (records,
                [Write (str ''Unable to load JSON: '' @ message e), RecordsView records]))"

text \<open>
  The body of the \<open>try\<close> in the application: the download, then the branch of the file
  extension. \<open>file_name\<close> is the base name of the selected object and \<open>file_ext\<close> its
  extension in lower case, both as the source computes them before the \<open>try\<close>.
\<close>

definition read_file_body ::
  "('r, 'v) payload runtime \<Rightarrow> ('r, 'v) request_env \<Rightarrow> pystr \<Rightarrow> pystr \<Rightarrow> view_choice
     \<Rightarrow> ('r, 'v) ui list \<times> (py_exc + unit)" where
  "read_file_body rt env file_name file_ext parquet_view_choice =
     (let local_file_path = e_mkdtemp env @ str ''/'' @ file_name in
      seq (call (e_file_get env)) (\<lambda>_.
        if file_ext \<in> {str ''json'', str ''ndjson''} then
          seq (call (bind (e_open_text env) (json_records (e_loads env)))) (\<lambda>records.
            let (records, views) = render_json_avro_view env (map Json records) in
            seq (emit views) (\<lambda>_.
            emit [Text (safe_cortex_call rt (Records records))]))
        else if file_ext = str ''avro'' then
          seq (call (avro_records (e_avro_reader env))) (\<lambda>records.
            let (records, views) = render_json_avro_view env (map Avro records) in
            seq (emit views) (\<lambda>_.
            emit [Text (safe_cortex_call rt (Records records))]))
        else if file_ext = str ''parquet'' then
          seq (if parquet_view_choice \<in> {MetadataOnly, Both}
               then seq (call (show_parquet_metadata local_file_path (e_parquet_file env)))
                      (\<lambda>metadata_dict. emit [MetadataView metadata_dict])
               else emit []) (\<lambda>_.
          seq (call (show_parquet_metadata local_file_path (e_parquet_file env)))
            (\<lambda>metadata_dict.
          seq (emit [Text (safe_cortex_call rt (ParquetMetadata metadata_dict))]) (\<lambda>_.
            if parquet_view_choice \<in> {SampleDataOnly, Both}
            then seq (call (e_read_parquet env)) (\<lambda>_. emit [SampleData])
            else emit [])))
        else emit [Warning (str ''Unsupported file type: .'' @ file_ext)]))"

text \<open>
  The request on a file system, seen as the set of its directories: the scratch
  directory is created, the body runs, an exception of the body is shown as an error
  after what the body has shown, and in the \<open>finally\<close> block \<open>shutil.rmtree(tmp_dir)\<close>
  is called inside a \<open>try\<close> whose handler is \<open>pass\<close>. The result is the file system
  after the request and what was shown from the creation of the directory on.
\<close>

definition read_file_request ::
  "('r, 'v) payload runtime \<Rightarrow> ('r, 'v) request_env \<Rightarrow> pystr \<Rightarrow> pystr \<Rightarrow> view_choice
     \<Rightarrow> pystr set \<Rightarrow> pystr set \<times> ('r, 'v) ui list" where
  "read_file_request rt env file_name file_ext parquet_view_choice fs =
     (let tmp_dir = e_mkdtemp env;
          fs1 = insert tmp_dir fs;
          (shown, r) = read_file_body rt env file_name file_ext parquet_view_choice;
          shown = (case r of
                     Inr _ \<Rightarrow> shown
                   | Inl e \<Rightarrow> shown @ [Error (str ''Error reading or analyzing file: '' @ message e)]);
          fs2 = (case e_rmtree env of None \<Rightarrow> fs1 - {tmp_dir} | Some e \<Rightarrow> fs1)
      in (fs2, shown))"

section \<open>Properties of the resolver\<close>

lemma str_append: "str (a @ b) = str a @ str b"
  by (simp add: str_def)

lemma relative_from_ev_equal: "relative_from_ev m m = []"
  by (simp add: relative_from_ev_def)

lemma relative_from_ev_below: "relative_from_ev (m @ str ''/'' @ r) m = r"
  by (simp add: relative_from_ev_def startswith_def str_def)

text \<open>
  In the application, a stage that matches the volume path leaves exactly the text
  below the stage URL and one separator, and nothing when the two are equal.
\<close>

lemma relative_from_ev_matches:
  assumes "stage_matches ev_s3_path stage_url"
  shows "ev_s3_path = stage_url \<and> relative_from_ev ev_s3_path stage_url = [] \<or>
         ev_s3_path = stage_url @ str ''/'' @ relative_from_ev ev_s3_path stage_url"
proof (cases "ev_s3_path = stage_url")
  case True
  then show ?thesis by (simp add: relative_from_ev_equal)
next
  case False
  with assms obtain r where r: "ev_s3_path = (stage_url @ str ''/'') @ r"
    by (auto simp: stage_matches_def startswith_def prefix_def)
  then have "relative_from_ev ev_s3_path stage_url = r"
    using relative_from_ev_below [of stage_url r] by simp
  with r show ?thesis by simp
qed

text \<open>
  C2. The relative prefix is what remains of the volume root after the mount root and
  one separator, and is empty when the two roots are equal. The application computes
  this (\<open>relative_from_ev_matches\<close>); the stand-alone script has no case for equal
  roots and falls through to its split heuristic: for the stage \<open>s3://bucket/a\<close> and the
  volume root \<open>s3://bucket/a\<close> it returns \<open>a\<close>, where the roots with one level more
  give \<open>b\<close> as they should.
\<close>

theorem relative_from_ev_root_equal_roots:
  "relative_from_ev_root (str ''s3://bucket/a'') (str ''s3://bucket/a'') = str ''a'' \<and>
   relative_from_ev_root (str ''s3://bucket/a/b'') (str ''s3://bucket/a'') = str ''b'' \<and>
   relative_from_ev (str ''s3://bucket/a'') (str ''s3://bucket/a'') = []"
  by (simp add: relative_from_ev_root_def relative_from_ev_def str_def endswith_def
      startswith_def split_def suffix_to_prefix)

lemma resolve_stage_Some:
  "resolve_stage rows ev = Some (name, url) \<Longrightarrow>
   \<exists>row \<in> set rows. url = normalize_path (STAGE_URL row) \<and> stage_matches ev url \<and>
     name = DATABASE_NAME row @ str ''.'' @ SCHEMA_NAME row @ str ''.'' @ STAGE_NAME row"
  by (induction rows) (auto simp: Let_def split: if_splits)

lemma mount_1_no_match:
  "\<not> stage_matches (str ''s3://bucket/mount-10/x'') (str ''s3://bucket/mount-1'')"
  by (simp add: stage_matches_def startswith_def str_def)

text \<open>
  C3. Whatever the stage table holds, the stage the resolver selects has a (normalised)
  URL that is the volume root itself or is followed in it by a separator; so the stage
  \<open>s3://bucket/mount-1\<close> is never the one selected for \<open>s3://bucket/mount-10/x\<close>.
\<close>

theorem resolve_stage_path_prefix:
  assumes "resolve_stage rows ev_s3_path = Some (resolved_stage, stage_url)"
  shows "(\<exists>row \<in> set rows. stage_url = normalize_path (STAGE_URL row)) \<and>
         (ev_s3_path = stage_url \<or> prefix (stage_url @ str ''/'') ev_s3_path) \<and>
         (ev_s3_path = str ''s3://bucket/mount-10/x'' \<longrightarrow> stage_url \<noteq> str ''s3://bucket/mount-1'')"
proof -
  from resolve_stage_Some [OF assms]
  have row: "\<exists>row \<in> set rows. stage_url = normalize_path (STAGE_URL row)"
    and m: "stage_matches ev_s3_path stage_url"
    by auto
  from m have "ev_s3_path = stage_url \<or> prefix (stage_url @ str ''/'') ev_s3_path"
    by (simp add: stage_matches_def startswith_def)
  moreover from m mount_1_no_match
  have "ev_s3_path = str ''s3://bucket/mount-10/x'' \<longrightarrow> stage_url \<noteq> str ''s3://bucket/mount-1''"
    by auto
  ultimately show ?thesis using row by simp
qed

theorem resolve_stage_path_prefix_witness:
  "resolve_stage
     [\<lparr>STAGE_NAME = str ''S1'', DATABASE_NAME = str ''D'', SCHEMA_NAME = str ''P'',
        STAGE_URL = str ''s3://bucket/mount-1/''\<rparr>,
      \<lparr>STAGE_NAME = str ''S10'', DATABASE_NAME = str ''D'', SCHEMA_NAME = str ''P'',
        STAGE_URL = str ''s3://bucket/mount-10''\<rparr>]
     (str ''s3://bucket/mount-10/x'') = Some (str ''D.P.S10'', str ''s3://bucket/mount-10'') \<and>
   prefix (str ''s3://bucket/mount-10'' @ str ''/'') (str ''s3://bucket/mount-10/x'') \<and>
   str ''s3://bucket/mount-10'' \<noteq> str ''s3://bucket/mount-1''"
proof -
  have h: "resolve_stage
     [\<lparr>STAGE_NAME = str ''S1'', DATABASE_NAME = str ''D'', SCHEMA_NAME = str ''P'',
        STAGE_URL = str ''s3://bucket/mount-1/''\<rparr>,
      \<lparr>STAGE_NAME = str ''S10'', DATABASE_NAME = str ''D'', SCHEMA_NAME = str ''P'',
        STAGE_URL = str ''s3://bucket/mount-10''\<rparr>]
     (str ''s3://bucket/mount-10/x'') = Some (str ''D.P.S10'', str ''s3://bucket/mount-10'')"
    by (simp add: str_def normalize_path_def rstrip_def stage_matches_def startswith_def)
  from resolve_stage_path_prefix [OF h] h show ?thesis
    by (simp add: str_def)
qed

text \<open>
  The stand-alone script respects the separator as well: the stage \<open>s3://bucket/mount-1\<close>
  is not taken as a prefix of \<open>s3://bucket/mount-10/x\<close>, and the relative part comes from
  the split of the volume path.
\<close>

lemma relative_from_ev_root_boundary:
  "relative_from_ev_root (str ''s3://bucket/mount-10/x'') (str ''s3://bucket/mount-1'')
     = str ''mount-10/x''"
  by (simp add: relative_from_ev_root_def str_def endswith_def startswith_def split_def
      suffix_to_prefix)

text \<open>
  The resolver of the application from end to end: the volume root \<open>store://bkt/vol1\<close>,
  the stage at \<open>store://bkt\<close> and the base location \<open>/db/t1/\<close> give the relative prefix
  \<open>vol1/db/t1\<close> and a pattern anchored on it.
\<close>

lemma resolver_end_to_end:
  "resolve_stage
     [\<lparr>STAGE_NAME = str ''M1'', DATABASE_NAME = str ''D'', SCHEMA_NAME = str ''P'',
        STAGE_URL = str ''store://bkt/''\<rparr>]
     (normalize_path (str ''store://bkt/vol1/*'')) = Some (str ''D.P.M1'', str ''store://bkt'') \<and>
   relative_from_ev (normalize_path (str ''store://bkt/vol1/*'')) (str ''store://bkt'') = str ''vol1'' \<and>
   relative_prefix (str ''vol1'') (Some (str ''/db/t1/'')) = str ''vol1/db/t1'' \<and>
   ls_pattern (str ''vol1/db/t1'') = str ''^vol1/db/t1.*''"
  by (simp add: str_def normalize_path_def rstrip_def lstrip_def strip_def stage_matches_def
      startswith_def relative_from_ev_def relative_prefix_def ls_pattern_def)

text \<open>
  C1. The list pattern should be the anchored, escaped relative prefix followed by
  \<open>.*\<close>. The application anchors the pattern but formats it from the unescaped prefix
  (the escaped text is computed and dropped), and the stand-alone script neither anchors
  nor escapes: for the prefix \<open>db.v1/t1\<close> the dot stays a wildcard in both.
\<close>

theorem ls_pattern_unescaped:
  "ls_pattern (str ''db.v1/t1'') = str ''^db.v1/t1.*'' \<and>
   ls_pattern (str ''db.v1/t1'') \<noteq> str ''^'' @ re_escape (str ''db.v1/t1'') @ str ''.*'' \<and>
   ls_pattern_root (str ''db.v1/t1'') = str ''db.v1/t1.*'' \<and>
   ls_pattern [] = str ''.*''"
  by (simp add: ls_pattern_def ls_pattern_root_def re_escape_def re_special_def str_def)

section \<open>Properties of the selection by label\<close>

lemma split_from_nonempty: "split_from sep m cur s \<noteq> []"
  by (induction sep m cur s rule: split_from.induct) auto

lemma split_from_first:
  assumes "sep \<noteq> []" and "\<forall>k<length name. \<not> prefix sep (drop k (name @ sep @ rest))"
  shows "split_from sep None cur (name @ sep @ rest) = (rev cur @ name) # split_from sep None [] rest"
  using assms(2)
proof (induction name arbitrary: cur)
  case Nil
  from assms(1) obtain a sep' where "sep = a # sep'" by (cases sep) auto
  then show ?case by simp
next
  case (Cons c cs)
  from Cons.prems have n0: "\<not> prefix sep (c # cs @ sep @ rest)" by force
  from Cons.prems have "\<forall>k<length cs. \<not> prefix sep (drop k (cs @ sep @ rest))" by force
  from Cons.IH [OF this, of "c # cur"] n0 show ?case by simp
qed

lemma split_from_early:
  assumes "sep \<noteq> []"
  shows "k \<le> length s \<Longrightarrow> prefix sep (drop k s) \<Longrightarrow>
         length (hd (split_from sep None cur s)) \<le> length cur + k"
proof (induction s arbitrary: cur k)
  case Nil
  with assms show ?case by simp
next
  case (Cons c s)
  show ?case
  proof (cases "prefix sep (c # s)")
    case True
    with assms show ?thesis by simp
  next
    case False
    with Cons.prems obtain k' where k: "k = Suc k'" by (cases k) auto
    with Cons.prems have "k' \<le> length s" "prefix sep (drop k' s)" by auto
    from Cons.IH [OF this, of "c # cur"] False k show ?thesis by simp
  qed
qed

lemma bar_occurrence:
  "(\<exists>k<length name. prefix (str '' | '') (drop k (name @ str '' | '' @ rest))) \<longleftrightarrow>
   sublist (str '' | '') name \<or> suffix (str '' |'') name"
proof
  assume "\<exists>k<length name. prefix (str '' | '') (drop k (name @ str '' | '' @ rest))"
  then obtain k where k: "k < length name"
    and p: "prefix (str '' | '') (drop k name @ str '' | '' @ rest)" by auto
  from k obtain a t where t: "drop k name = a # t" by (cases "drop k name") auto
  then have name: "name = take k name @ a # t" by (metis append_take_drop_id)
  show "sublist (str '' | '') name \<or> suffix (str '' |'') name"
  proof (cases t)
    case Nil
    with p t show ?thesis by (simp add: str_def)
  next
    case (Cons b t2)
    show ?thesis
    proof (cases t2)
      case Nil
      with p t Cons have "a # t = str '' |''" by (simp add: str_def)
      with name have "name = take k name @ str '' |''" by simp
      then have "suffix (str '' |'') name" by (metis suffixI)
      then show ?thesis by simp
    next
      case (Cons c t3)
      with p t \<open>t = b # t2\<close> have "a # t = str '' | '' @ t3" by (simp add: str_def)
      with name have "name = take k name @ str '' | '' @ t3" by simp
      then have "sublist (str '' | '') name" by (metis sublist_appendI)
      then show ?thesis by simp
    qed
  qed
next
  assume "sublist (str '' | '') name \<or> suffix (str '' |'') name"
  then show "\<exists>k<length name. prefix (str '' | '') (drop k (name @ str '' | '' @ rest))"
  proof
    assume "sublist (str '' | '') name"
    then obtain ps ss where n: "name = ps @ str '' | '' @ ss" by (auto simp: sublist_def)
    then have "length ps < length name" by (simp add: str_def)
    moreover from n have "prefix (str '' | '') (drop (length ps) (name @ str '' | '' @ rest))" by simp
    ultimately show ?thesis by blast
  next
    assume "suffix (str '' |'') name"
    then obtain ps where n: "name = ps @ str '' |''" by (auto simp: suffix_def)
    then have "length ps < length name" by (simp add: str_def)
    moreover from n have "prefix (str '' | '') (drop (length ps) (name @ str '' | '' @ rest))"
      by (simp add: str_def)
    ultimately show ?thesis by blast
  qed
qed

text \<open>
  C10 (as amended). The name read back from the label of a listed object is the
  object's name exactly when the name neither contains the separator \<open>" | "\<close> nor
  ends with \<open>" |"\<close>: in the second case the end of the name and the first character
  of the separator form an earlier occurrence of the separator.
\<close>

theorem label_round_trip:
  "label_name (LABEL name last_modified) = name \<longleftrightarrow>
   \<not> sublist (str '' | '') name \<and> \<not> suffix (str '' |'') name"
proof
  assume eq: "label_name (LABEL name last_modified) = name"
  show "\<not> sublist (str '' | '') name \<and> \<not> suffix (str '' |'') name"
  proof (rule ccontr)
    assume "\<not> ?thesis"
    with bar_occurrence [of name last_modified]
    obtain k where k: "k < length name"
      and p: "prefix (str '' | '') (drop k (name @ str '' | '' @ last_modified))" by auto
    have "length (hd (split_from (str '' | '') None [] (name @ str '' | '' @ last_modified)))
          \<le> length ([]::pystr) + k"
      by (rule split_from_early) (use k p in \<open>auto simp: str_def\<close>)
    with k eq show False by (simp add: label_name_def LABEL_def split_def)
  qed
next
  assume "\<not> sublist (str '' | '') name \<and> \<not> suffix (str '' |'') name"
  with bar_occurrence [of name last_modified]
  have "\<forall>k<length name. \<not> prefix (str '' | '') (drop k (name @ str '' | '' @ last_modified))"
    by auto
  from split_from_first [OF _ this, of "[]"] show "label_name (LABEL name last_modified) = name"
    by (simp add: label_name_def LABEL_def split_def str_def)
qed

theorem label_round_trip_witness:
  "label_name (LABEL (str ''t1/part-0.parquet'') (str ''Mon, 1 Jan 2024'')) = str ''t1/part-0.parquet''"
  using label_round_trip [of "str ''t1/part-0.parquet''" "str ''Mon, 1 Jan 2024''"]
  by (simp add: str_def sublist_code suffix_to_prefix)

text \<open>
  C10 (as stated) fails for the object name \<open>"a |"\<close>, which does not contain
  \<open>" | "\<close>: its label is \<open>"a | | ..."\<close> and the name read back is \<open>"a"\<close>.
\<close>

theorem label_round_trip_counterexample:
  "\<not> sublist (str '' | '') (str ''a |'') \<and>
   label_name (LABEL (str ''a |'') (str ''2024-01-01'')) = str ''a'' \<and>
   label_name (LABEL (str ''a |'') (str ''2024-01-01'')) \<noteq> str ''a |''"
  by (simp add: label_name_def LABEL_def split_def str_def sublist_code)

section \<open>Properties of the summarization adapter\<close>





















lemma index_of_None: "index_of l cs = None \<longleftrightarrow> l \<notin> set cs"
  by (induction cs) auto

lemma cell_in_row: "cell row j = Inr v \<Longrightarrow> v \<in> set row"
  by (auto simp: cell_def split: if_splits)

lemma model_output_in_row:
  "model_output df = Inr v \<Longrightarrow> \<exists>row rest. df_rows df = row # rest \<and> v \<in> set row"
  by (auto simp: model_output_def iloc0_label_def iloc00_def
        split: if_splits list.splits option.splits dest: cell_in_row)

lemma model_output_no_rows:
  "df_rows df = [] \<Longrightarrow>
   model_output df = Inl (if str ''MODEL_OUTPUT'' \<in> set (df_columns df)
                          then positional_out_of_bounds else axis_out_of_bounds)"
  by (simp add: model_output_def iloc0_label_def iloc00_def)

lemma model_output_first_cell:
  "str ''MODEL_OUTPUT'' \<notin> set (df_columns df) \<Longrightarrow> df_columns df \<noteq> [] \<Longrightarrow>
   df_rows df = (v # vs) # rest \<Longrightarrow> model_output df = Inr v"
  by (simp add: model_output_def iloc00_def cell_def)

text \<open>
  C6 (as amended). \<open>safe_cortex_call\<close> always returns a text. When a step of the call
  raises, the text is \<open>AI summary skipped: \<close> followed by the message of the exception:
  when the record cannot be serialised (\<open>json.dumps\<close> and the fallback \<open>str\<close> both
  raise), when the service raises, and when the response frame has no row or no column.
  A response frame with a row and without the column \<open>MODEL_OUTPUT\<close> is no failure: the
  text is the first cell of the frame. In every case the text is either such a
  placeholder or a cell of the first row of the response.
\<close>

theorem safe_cortex_call_placeholder:
  "(serialize rt record = Inl e \<longrightarrow>
      safe_cortex_call rt record = str ''AI summary skipped: '' @ message e) \<and>
   (cleanse_for_cortex rt record 3000 = Inr safe_text \<and> session_sql rt (sql_ai safe_text) = Inl e \<longrightarrow>
      safe_cortex_call rt record = str ''AI summary skipped: '' @ message e) \<and>
   (cleanse_for_cortex rt record 3000 = Inr safe_text \<and> session_sql rt (sql_ai safe_text) = Inr df_ai \<and>
    df_rows df_ai = [] \<longrightarrow>
      safe_cortex_call rt record = str ''AI summary skipped: '' @
        message (if str ''MODEL_OUTPUT'' \<in> set (df_columns df_ai)
                 then positional_out_of_bounds else axis_out_of_bounds)) \<and>
   (cleanse_for_cortex rt record 3000 = Inr safe_text \<and> session_sql rt (sql_ai safe_text) = Inr df_ai \<and>
    df_columns df_ai = [] \<longrightarrow>
      safe_cortex_call rt record = str ''AI summary skipped: '' @ message axis_out_of_bounds) \<and>
   (cleanse_for_cortex rt record 3000 = Inr safe_text \<and> session_sql rt (sql_ai safe_text) = Inr df_ai \<and>
    str ''MODEL_OUTPUT'' \<notin> set (df_columns df_ai) \<and> df_columns df_ai \<noteq> [] \<and>
    df_rows df_ai = (v # vs) # rest \<longrightarrow>
      safe_cortex_call rt record = v) \<and>
   (prefix (str ''AI summary skipped: '') (safe_cortex_call rt record) \<or>
    (\<exists>t df row rest. cleanse_for_cortex rt record 3000 = Inr t \<and>
        session_sql rt (sql_ai t) = Inr df \<and> df_rows df = row # rest \<and>
        safe_cortex_call rt record \<in> set row))"
proof -
  have a: "safe_cortex_call rt record = str ''AI summary skipped: '' @ message e"
    if "serialize rt record = Inl e"
    using that by (simp add: safe_cortex_call_def cortex_call_def cleanse_for_cortex_def bind_def)
  have b: "safe_cortex_call rt record = str ''AI summary skipped: '' @ message e"
    if "cleanse_for_cortex rt record 3000 = Inr safe_text" "session_sql rt (sql_ai safe_text) = Inl e"
    using that by (simp add: safe_cortex_call_def cortex_call_def bind_def)
  have c: "safe_cortex_call rt record = str ''AI summary skipped: '' @
        message (if str ''MODEL_OUTPUT'' \<in> set (df_columns df_ai)
                 then positional_out_of_bounds else axis_out_of_bounds)"
    if "cleanse_for_cortex rt record 3000 = Inr safe_text" "session_sql rt (sql_ai safe_text) = Inr df_ai"
      "df_rows df_ai = []"
    using that(1,2) model_output_no_rows [OF that(3)]
    by (simp add: safe_cortex_call_def cortex_call_def bind_def)
  have d: "safe_cortex_call rt record = str ''AI summary skipped: '' @ message axis_out_of_bounds"
    if "cleanse_for_cortex rt record 3000 = Inr safe_text" "session_sql rt (sql_ai safe_text) = Inr df_ai"
      "df_columns df_ai = []"
    using that by (simp add: safe_cortex_call_def cortex_call_def bind_def model_output_def iloc00_def)
  have f: "safe_cortex_call rt record = v"
    if "cleanse_for_cortex rt record 3000 = Inr safe_text" "session_sql rt (sql_ai safe_text) = Inr df_ai"
      "str ''MODEL_OUTPUT'' \<notin> set (df_columns df_ai)" "df_columns df_ai \<noteq> []"
      "df_rows df_ai = (v # vs) # rest"
    using that(1,2) model_output_first_cell [OF that(3,4,5)]
    by (simp add: safe_cortex_call_def cortex_call_def bind_def)
  have g: "prefix (str ''AI summary skipped: '') (safe_cortex_call rt record) \<or>
    (\<exists>t df row rest. cleanse_for_cortex rt record 3000 = Inr t \<and>
        session_sql rt (sql_ai t) = Inr df \<and> df_rows df = row # rest \<and>
        safe_cortex_call rt record \<in> set row)"
  proof (cases "cortex_call rt record")
    case (Inl e)
    then show ?thesis by (simp add: safe_cortex_call_def)
  next
    case (Inr out)
    then obtain t df where t: "cleanse_for_cortex rt record 3000 = Inr t"
      and df: "session_sql rt (sql_ai t) = Inr df" and m: "model_output df = Inr out"
      by (auto simp: cortex_call_def bind_def split: sum.splits)
    from model_output_in_row [OF m] obtain row rest where "df_rows df = row # rest" "out \<in> set row"
      by blast
    with t df Inr show ?thesis by (auto simp: safe_cortex_call_def)
  qed
  show ?thesis using a b c d f g by blast
qed


theorem safe_cortex_call_placeholder_witness:
  "safe_cortex_call
     \<lparr>json_dumps = (\<lambda>r. Inl (Exc (OtherException (str ''TypeError'')) (str ''keys must be str''))),
      to_str = (\<lambda>r. Inl (Exc (OtherException (str ''RecursionError'')) (str ''too deep''))),
      session_sql = (\<lambda>q. Inr \<lparr>df_columns = [], df_rows = []\<rparr>)\<rparr> (0::nat)
     = str ''AI summary skipped: too deep'' \<and>
   safe_cortex_call
     \<lparr>json_dumps = (\<lambda>r. Inr r), to_str = (\<lambda>r. Inr r),
      session_sql = (\<lambda>q. Inl (Exc (OtherException (str ''SnowparkSQLException'')) (str ''service unavailable'')))\<rparr>
     (str ''{}'')
     = str ''AI summary skipped: service unavailable'' \<and>
   safe_cortex_call
     \<lparr>json_dumps = (\<lambda>r. Inr r), to_str = (\<lambda>r. Inr r),
      session_sql = (\<lambda>q. Inr \<lparr>df_columns = [str ''MODEL_OUTPUT''], df_rows = []\<rparr>)\<rparr>
     (str ''{}'')
     = str ''AI summary skipped: single positional indexer is out-of-bounds'' \<and>
   safe_cortex_call
     \<lparr>json_dumps = (\<lambda>r. Inr r), to_str = (\<lambda>r. Inr r),
      session_sql = (\<lambda>q. Inr \<lparr>df_columns = [], df_rows = []\<rparr>)\<rparr>
     (str ''{}'')
     = str ''AI summary skipped: index 0 is out of bounds for axis 0 with size 0'' \<and>
   safe_cortex_call
     \<lparr>json_dumps = (\<lambda>r. Inr r), to_str = (\<lambda>r. Inr r),
      session_sql = (\<lambda>q. Inr \<lparr>df_columns = [str ''RESULT''], df_rows = [[str ''first'']]\<rparr>)\<rparr>
     (str ''{}'')
     = str ''first''"
proof -
  let ?e1 = "Exc (OtherException (str ''RecursionError'')) (str ''too deep'')"
  let ?rt1 = "\<lparr>json_dumps = (\<lambda>r. Inl (Exc (OtherException (str ''TypeError'')) (str ''keys must be str''))),
      to_str = (\<lambda>r. Inl ?e1),
      session_sql = (\<lambda>q. Inr \<lparr>df_columns = [], df_rows = []\<rparr>)\<rparr> :: nat runtime"
  let ?e2 = "Exc (OtherException (str ''SnowparkSQLException'')) (str ''service unavailable'')"
  let ?rt2 = "\<lparr>json_dumps = (\<lambda>r. Inr r), to_str = (\<lambda>r. Inr r),
      session_sql = (\<lambda>q. Inl ?e2)\<rparr> :: pystr runtime"
  let ?df3 = "\<lparr>df_columns = [str ''MODEL_OUTPUT''], df_rows = []\<rparr>"
  let ?rt3 = "\<lparr>json_dumps = (\<lambda>r. Inr r), to_str = (\<lambda>r. Inr r),
      session_sql = (\<lambda>q. Inr ?df3)\<rparr> :: pystr runtime"
  let ?df4 = "\<lparr>df_columns = [], df_rows = []\<rparr>"
  let ?rt4 = "\<lparr>json_dumps = (\<lambda>r. Inr r), to_str = (\<lambda>r. Inr r),
      session_sql = (\<lambda>q. Inr ?df4)\<rparr> :: pystr runtime"
  let ?df5 = "\<lparr>df_columns = [str ''RESULT''], df_rows = [[str ''first'']]\<rparr>"
  let ?rt5 = "\<lparr>json_dumps = (\<lambda>r. Inr r), to_str = (\<lambda>r. Inr r),
      session_sql = (\<lambda>q. Inr ?df5)\<rparr> :: pystr runtime"
  let ?t = "slice_to (cleanse_text (str ''{}'')) 3000"
  have c: "cleanse_for_cortex rt (str ''{}'') 3000 = Inr ?t" if "json_dumps rt = (\<lambda>r. Inr r)"
    for rt :: "pystr runtime"
    using that by (simp add: cleanse_for_cortex_def serialize_def bind_def)
  have 1: "serialize ?rt1 0 = Inl ?e1" by (simp add: serialize_def)
  have 2: "cleanse_for_cortex ?rt2 (str ''{}'') 3000 = Inr ?t \<and> session_sql ?rt2 (sql_ai ?t) = Inl ?e2"
    by (simp add: c)
  have 3: "cleanse_for_cortex ?rt3 (str ''{}'') 3000 = Inr ?t \<and> session_sql ?rt3 (sql_ai ?t) = Inr ?df3
           \<and> df_rows ?df3 = []"
    by (simp add: c)
  have 4: "cleanse_for_cortex ?rt4 (str ''{}'') 3000 = Inr ?t \<and> session_sql ?rt4 (sql_ai ?t) = Inr ?df4
           \<and> df_columns ?df4 = []"
    by (simp add: c)
  have 5: "cleanse_for_cortex ?rt5 (str ''{}'') 3000 = Inr ?t \<and> session_sql ?rt5 (sql_ai ?t) = Inr ?df5
           \<and> str ''MODEL_OUTPUT'' \<notin> set (df_columns ?df5) \<and> df_columns ?df5 \<noteq> []
           \<and> df_rows ?df5 = (str ''first'' # []) # []"
  proof -
    have "str ''MODEL_OUTPUT'' \<notin> set (df_columns ?df5)" by (simp add: str_def)
    then show ?thesis by (simp add: c)
  qed
  from safe_cortex_call_placeholder [of ?rt1 0 ?e1] 1
  have "safe_cortex_call ?rt1 0 = str ''AI summary skipped: '' @ message ?e1" by blast
  moreover from safe_cortex_call_placeholder [of ?rt2 "str ''{}''" ?e2 ?t] 2
  have "safe_cortex_call ?rt2 (str ''{}'') = str ''AI summary skipped: '' @ message ?e2" by blast
  moreover from safe_cortex_call_placeholder [of ?rt3 "str ''{}''" _ ?t ?df3] 3
  have "safe_cortex_call ?rt3 (str ''{}'') = str ''AI summary skipped: '' @
          message (if str ''MODEL_OUTPUT'' \<in> set (df_columns ?df3)
                   then positional_out_of_bounds else axis_out_of_bounds)"
    by blast
  moreover from safe_cortex_call_placeholder [of ?rt4 "str ''{}''" _ ?t ?df4] 4
  have "safe_cortex_call ?rt4 (str ''{}'') = str ''AI summary skipped: '' @ message axis_out_of_bounds"
    by blast
  moreover from safe_cortex_call_placeholder [of ?rt5 "str ''{}''" _ ?t ?df5 "str ''first''" "[]" "[]"] 5
  have "safe_cortex_call ?rt5 (str ''{}'') = str ''first''" by blast
  ultimately show ?thesis
    by (simp add: str_def positional_out_of_bounds_def axis_out_of_bounds_def)
qed

text \<open>
  C6 (as stated) fails for a missing response column: the service answers with one row
  under the column \<open>RESULT\<close>, and the function returns the cell \<open>first\<close>, a text
  without any mention of a skip.
\<close>

theorem safe_cortex_call_missing_column:
  "safe_cortex_call
     \<lparr>json_dumps = (\<lambda>r. Inr r), to_str = (\<lambda>r. Inr r),
      session_sql = (\<lambda>q. Inr \<lparr>df_columns = [str ''RESULT''], df_rows = [[str ''first'']]\<rparr>)\<rparr>
     (str ''{}'')
     = str ''first'' \<and>
   \<not> sublist (str ''skipped'') (str ''first'')"
  by (simp add: safe_cortex_call_def cortex_call_def cleanse_for_cortex_def serialize_def bind_def
      model_output_def iloc00_def cell_def str_def sublist_code)

section \<open>Properties of the record extractors\<close>

lemma avro_loop_in_order:
  "avro_loop reader i acc = Inr recs \<Longrightarrow> i \<le> 9999999 \<Longrightarrow>
   \<exists>ext. recs = acc @ ext \<and> length ext + i \<le> 10000000 \<and>
         (\<forall>k<length ext. reader (i + k) = Rec (ext ! k))"
proof (induction reader i acc rule: avro_loop.induct)
  case (1 reader i records)
  show ?case
  proof (cases "reader i")
    case Stop
    with "1.prems" have "recs = records" by (simp add: avro_loop.simps [of reader i])
    with "1.prems"(2) show ?thesis by simp
  next
    case (Fail e)
    with "1.prems" show ?thesis by (simp add: avro_loop.simps [of reader i])
  next
    case (Rec r)
    show ?thesis
    proof (cases "9999999 \<le> i")
      case True
      with Rec "1.prems" have "recs = records @ [r]" and "i = 9999999"
        by (simp_all add: avro_loop.simps [of reader i])
      with Rec show ?thesis by simp
    next
      case False
      with Rec "1.prems" have run: "avro_loop reader (i + 1) (records @ [r]) = Inr recs"
        by (simp add: avro_loop.simps [of reader i])
      from False have "i + 1 \<le> 9999999" by simp
      from "1.IH" [OF Rec False run this]
      obtain ext where e: "recs = (records @ [r]) @ ext" "length ext + (i + 1) \<le> 10000000"
        "\<forall>k<length ext. reader (i + 1 + k) = Rec (ext ! k)" by blast
      have "\<forall>k<length (r # ext). reader (i + k) = Rec ((r # ext) ! k)"
      proof (intro allI impI)
        fix k assume "k < length (r # ext)"
        then show "reader (i + k) = Rec ((r # ext) ! k)"
          using e(3) Rec by (cases k) auto
      qed
      with e(1,2) show ?thesis by (intro exI [of _ "r # ext"]) simp
    qed
  qed
qed

lemma avro_loop_unbounded:
  "\<forall>k. \<exists>r. reader k = Rec r \<Longrightarrow> i \<le> 9999999 \<Longrightarrow>
   \<exists>recs. avro_loop reader i acc = Inr recs \<and> length recs + i = length acc + 10000000"
proof (induction reader i acc rule: avro_loop.induct)
  case (1 reader i records)
  from "1.prems"(1) obtain r where Rec: "reader i = Rec r" by blast
  show ?case
  proof (cases "9999999 \<le> i")
    case True
    with Rec have "avro_loop reader i records = Inr (records @ [r])"
      by (simp add: avro_loop.simps [of reader i])
    moreover from True "1.prems"(2) have "i = 9999999" by simp
    ultimately show ?thesis by simp
  next
    case False
    then have "i + 1 \<le> 9999999" by simp
    from "1.IH" [OF Rec False "1.prems"(1) this]
    obtain recs where "avro_loop reader (i + 1) (records @ [r]) = Inr recs"
      "length recs + (i + 1) = length (records @ [r]) + 10000000" by blast
    with Rec False show ?thesis by (simp add: avro_loop.simps [of reader i])
  qed
qed

text \<open>
  C9. The Avro loop is a total function: it ends on every reader, whatever the length
  of the stream. The records it returns are the first records of the reader, in the
  reader's order, and never more than 10,000,000; on a reader that never ends it
  returns exactly 10,000,000 records.
\<close>

theorem avro_records_capped:
  "(avro_records (Inr reader) = Inr recs \<longrightarrow>
      length recs \<le> 10000000 \<and> (\<forall>k<length recs. reader k = Rec (recs ! k))) \<and>
   ((\<forall>k. \<exists>r. reader k = Rec r) \<longrightarrow>
      (\<exists>all. avro_records (Inr reader) = Inr all \<and> length all = 10000000))"
proof (intro conjI impI)
  assume a: "avro_records (Inr reader) = Inr recs"
  then have "avro_loop reader 0 [] = Inr recs" by (simp add: avro_records_def bind_def)
  from avro_loop_in_order [OF this]
  show "length recs \<le> 10000000" and "\<forall>k<length recs. reader k = Rec (recs ! k)" by auto
next
  assume "\<forall>k. \<exists>r. reader k = Rec r"
  from avro_loop_unbounded [OF this, of 0 "[]"]
  show "\<exists>all. avro_records (Inr reader) = Inr all \<and> length all = 10000000"
    by (simp add: avro_records_def bind_def)
qed

theorem avro_records_capped_witness:
  "avro_records (Inr (\<lambda>k. if k < 2 then Rec (k + 40) else Stop)) = Inr [40, 41::nat] \<and>
   (\<exists>all. avro_records (Inr (\<lambda>k. Rec k)) = Inr all \<and> length all = 10000000)"
proof -
  have 1: "avro_records (Inr (\<lambda>k. if k < 2 then Rec (k + 40) else Stop)) = Inr [40, 41::nat]"
    by (simp add: avro_records_def bind_def avro_loop.simps)
  from avro_records_capped [of "\<lambda>k. if k < 2 then Rec (k + 40) else Stop" "[40, 41::nat]"] 1
  have "length [40, 41::nat] \<le> 10000000" by blast
  moreover from avro_records_capped [of "\<lambda>k. Rec k" "[]"]
  have "\<exists>all. avro_records (Inr (\<lambda>k. Rec k)) = Inr all \<and> length all = 10000000" by blast
  ultimately show ?thesis using 1 by simp
qed

lemma read_lines_map:
  "read_lines loads acc ls =
   acc @ map (line_record loads) (filter (\<lambda>l. l \<noteq> []) (map strip_ws ls))"
  by (induction ls arbitrary: acc) (auto simp: Let_def line_record_def split: sum.splits)

text \<open>
  In the application the branch does what the specification says: a file that parses
  gives the elements of its list or its one value; a file that does not parse gives one
  record for each non-blank line, in order, the unparsable lines as \<open>raw_line\<close>.
\<close>

lemma json_records_spec:
  "(loads text = Inr (JArr xs) \<longrightarrow> json_records loads text = Inr xs) \<and>
   (loads text = Inr obj \<and> (\<forall>xs. obj \<noteq> JArr xs) \<longrightarrow> json_records loads text = Inr [obj]) \<and>
   (loads text = Inl e \<and> exc_class e = JSONDecodeError \<longrightarrow>
      json_records loads text =
        Inr (map (line_record loads) (filter (\<lambda>l. l \<noteq> []) (map strip_ws (lines_of text)))))"
  by (auto simp: json_records_def json_load_def open_text_def seek_def file_lines_def
        as_records_def read_lines_map split: json.splits)

text \<open>
  In the stand-alone script the line loop starts at the end of the file, so a file
  that does not parse as a whole gives no record at all.
\<close>

lemma json_records_root_lines:
  "loads text = Inl e \<Longrightarrow> exc_class e = JSONDecodeError \<Longrightarrow> json_records_root loads text = Inr []"
  by (simp add: json_records_root_def json_load_def open_text_def file_lines_def)

lemma read_lines_root_drops:
  "read_lines_root loads acc ls =
   acc @ concat (map (\<lambda>l. case loads l of Inr v \<Rightarrow> [v] | Inl e \<Rightarrow> [])
                   (filter (\<lambda>l. l \<noteq> []) (map strip_ws ls)))"
  by (induction ls arbitrary: acc) (auto simp: Let_def split: sum.splits)

text \<open>
  C4. A file of newline-delimited records whose last line is not JSON should give one
  record for each of its three lines, the last as \<open>raw_line\<close>. The application
  returns these three records. The stand-alone script returns none: after the failed
  parse of the whole file it reads lines from the end of the file; and its line loop,
  given the three lines, keeps only the two that parse. The parser of the statement
  accepts the first two lines and rejects everything else.
\<close>

theorem json_records_root_ndjson:
  "json_records_root
     (\<lambda>s. if s = str ''{'' @ dq @ str ''a'' @ dq @ str '':1}'' then Inr (JObj [(str ''a'', JInt 1)])
          else if s = str ''{'' @ dq @ str ''b'' @ dq @ str '':2}'' then Inr (JObj [(str ''b'', JInt 2)])
          else Inl (Exc JSONDecodeError (str ''Expecting value'')))
     (str ''{'' @ dq @ str ''a'' @ dq @ str '':1}'' @ [10] @
      str ''{'' @ dq @ str ''b'' @ dq @ str '':2}'' @ [10] @ str ''not-json'' @ [10]) = Inr [] \<and>
   json_records
     (\<lambda>s. if s = str ''{'' @ dq @ str ''a'' @ dq @ str '':1}'' then Inr (JObj [(str ''a'', JInt 1)])
          else if s = str ''{'' @ dq @ str ''b'' @ dq @ str '':2}'' then Inr (JObj [(str ''b'', JInt 2)])
          else Inl (Exc JSONDecodeError (str ''Expecting value'')))
     (str ''{'' @ dq @ str ''a'' @ dq @ str '':1}'' @ [10] @
      str ''{'' @ dq @ str ''b'' @ dq @ str '':2}'' @ [10] @ str ''not-json'' @ [10]) =
     Inr [JObj [(str ''a'', JInt 1)], JObj [(str ''b'', JInt 2)],
          JObj [(str ''raw_line'', JStr (str ''not-json''))]] \<and>
   read_lines_root
     (\<lambda>s. if s = str ''{'' @ dq @ str ''a'' @ dq @ str '':1}'' then Inr (JObj [(str ''a'', JInt 1)])
          else if s = str ''{'' @ dq @ str ''b'' @ dq @ str '':2}'' then Inr (JObj [(str ''b'', JInt 2)])
          else Inl (Exc JSONDecodeError (str ''Expecting value''))) []
     [str ''{'' @ dq @ str ''a'' @ dq @ str '':1}'' @ [10],
      str ''{'' @ dq @ str ''b'' @ dq @ str '':2}'' @ [10], str ''not-json'' @ [10]] =
     [JObj [(str ''a'', JInt 1)], JObj [(str ''b'', JInt 2)]]"
  by (simp add: json_records_root_def json_records_def json_load_def open_text_def seek_def
      file_lines_def str_def dq_def strip_ws_def is_space_def raw_line_def Let_def)

section \<open>Properties of the columnar extractor\<close>


lemma column_info_not_implemented:
  "stats_try col = Inl e \<Longrightarrow> not_implemented e \<Longrightarrow>
   column_info col = Inr (with_statistics col None)"
  by (simp add: column_info_def)









section \<open>Properties of the Read File request\<close>

lemma seq_raises: "seq (shown, Inl e) f = (shown, Inl e)"
  by (simp add: seq_def)

lemma seq_returns: "seq (shown, Inr v) f = (shown @ fst (f v), snd (f v))"
  by (simp add: seq_def split: prod.splits)

text \<open>
  The paths of the body. A failed download shows nothing; the request then shows the
  error alone.
\<close>

lemma read_file_body_download_error:
  "e_file_get env = Inl e \<Longrightarrow>
   read_file_body rt env file_name file_ext parquet_view_choice = ([], Inl e)"
  by (simp add: read_file_body_def call_def seq_raises)

text \<open>
  A Parquet file whose sample cannot be read: the summary has been shown when
  \<open>pd.read_parquet\<close> raises, and stays shown before the error.
\<close>

lemma read_file_body_sample_error:
  assumes "e_file_get env = Inr ()" and "e_parquet_file env = Inr meta"
    and "show_parquet_metadata (e_mkdtemp env @ str ''/'' @ file_name) (Inr meta) = Inr md"
    and "e_read_parquet env = Inl e"
  shows "read_file_body rt env file_name (str ''parquet'') SampleDataOnly =
           ([Text (safe_cortex_call rt (ParquetMetadata md))], Inl e)"
proof -
  have ne: "str ''parquet'' \<notin> {str ''json'', str ''ndjson''}" "str ''parquet'' \<noteq> str ''avro''"
    by (simp_all add: str_def)
  show ?thesis
    using assms ne
    by (simp add: read_file_body_def Let_def call_def emit_def seq_returns seq_raises)
qed

text \<open>
  A file of newline-delimited records: the view function appends the records of the
  lines to the list of the request, so the adapter receives every record twice.
\<close>

lemma read_file_body_ndjson:
  assumes "e_file_get env = Inr ()" and "e_open_text env = Inr text"
    and "e_loads env text = Inl e" and "exc_class e = JSONDecodeError"
  shows "read_file_body rt env file_name (str ''ndjson'') parquet_view_choice =
           (let rs = map Json (read_lines (e_loads env) [] (lines_of text)) in
            ([RecordsView (rs @ rs), Text (safe_cortex_call rt (Records (rs @ rs)))], Inr ()))"
  using assms
  by (simp add: read_file_body_def Let_def call_def emit_def seq_returns seq_raises bind_def
      json_records_def json_load_def open_text_def seek_def file_lines_def
      render_json_avro_view_def)

text \<open>
  C8 (as amended). Whatever the download, the extraction, the views and the
  summarization do, the request calls \<open>shutil.rmtree\<close> on its scratch directory. When
  that call succeeds the directory is gone after the request: the directories are those
  of before, without the scratch directory. When the call raises, the exception is
  passed over and the directory persists.
\<close>

theorem read_file_request_cleanup:
  "(e_rmtree env = None \<longrightarrow>
      e_mkdtemp env \<notin> fst (read_file_request rt env file_name file_ext parquet_view_choice fs) \<and>
      fst (read_file_request rt env file_name file_ext parquet_view_choice fs) = fs - {e_mkdtemp env}) \<and>
   (e_rmtree env = Some x \<longrightarrow>
      e_mkdtemp env \<in> fst (read_file_request rt env file_name file_ext parquet_view_choice fs) \<and>
      fst (read_file_request rt env file_name file_ext parquet_view_choice fs) = insert (e_mkdtemp env) fs)"
  by (auto simp: read_file_request_def Let_def split: prod.splits)

theorem read_file_request_cleanup_witness:
  "read_file_request
     \<lparr>json_dumps = (\<lambda>r. Inr (str ''{}'')), to_str = (\<lambda>r. Inr (str ''{}'')),
      session_sql = (\<lambda>q. Inr \<lparr>df_columns = [str ''MODEL_OUTPUT''], df_rows = [[str ''ok'']]\<rparr>)\<rparr>
     \<lparr>e_mkdtemp = str ''/tmp/sf_stage_1'', e_file_get = Inr (),
      e_open_text = Inl (Exc (OtherException (str ''UnicodeDecodeError'')) (str ''invalid start byte'')),
      e_loads = (\<lambda>s. Inl (Exc JSONDecodeError (str ''Expecting value''))),
      e_avro_reader = Inr (\<lambda>k. Stop :: nat step),
      e_parquet_file = Inr \<lparr>created_by = None, num_rows = Some 0, num_columns = Some 0,
        num_row_groups = Some 0, schema_arrow = [], metadata = Inr None,
        row_groups = [] :: nat row_group list\<rparr>,
      e_read_parquet = Inl (Exc (OtherException (str ''ArrowInvalid'')) (str ''corrupt page'')),
      e_rmtree = None\<rparr>
     (str ''t.parquet'') (str ''parquet'') SampleDataOnly {str ''/tmp/other''}
   = ({str ''/tmp/other''},
      [Text (str ''ok''), Error (str ''Error reading or analyzing file: corrupt page'')]) \<and>
   fst (read_file_request
     \<lparr>json_dumps = (\<lambda>r. Inr (str ''{}'')), to_str = (\<lambda>r. Inr (str ''{}'')),
      session_sql = (\<lambda>q. Inr \<lparr>df_columns = [str ''MODEL_OUTPUT''], df_rows = [[str ''ok'']]\<rparr>)\<rparr>
     \<lparr>e_mkdtemp = str ''/tmp/sf_stage_1'',
      e_file_get = Inl (Exc (OtherException (str ''SnowparkSQLException'')) (str ''no such file'')),
      e_open_text = Inr (str ''[]''), e_loads = (\<lambda>s. Inr (JArr [])),
      e_avro_reader = Inr (\<lambda>k. Stop :: nat step),
      e_parquet_file = Inl (Exc (OtherException (str ''ArrowInvalid'')) (str ''not a parquet file''))
        :: py_exc + nat file_meta,
      e_read_parquet = Inr (),
      e_rmtree = Some (Exc (OtherException (str ''PermissionError'')) (str ''Permission denied''))\<rparr>
     (str ''t.json'') (str ''json'') Both {str ''/tmp/other''})
   = {str ''/tmp/sf_stage_1'', str ''/tmp/other''}"
proof -
  let ?rt = "\<lparr>json_dumps = (\<lambda>r. Inr (str ''{}'')), to_str = (\<lambda>r. Inr (str ''{}'')),
      session_sql = (\<lambda>q. Inr \<lparr>df_columns = [str ''MODEL_OUTPUT''], df_rows = [[str ''ok'']]\<rparr>)\<rparr>
      :: (nat, nat) payload runtime"
  let ?meta = "\<lparr>created_by = None, num_rows = Some 0, num_columns = Some 0,
        num_row_groups = Some 0, schema_arrow = [], metadata = Inr None,
        row_groups = [] :: nat row_group list\<rparr>"
  let ?e = "Exc (OtherException (str ''ArrowInvalid'')) (str ''corrupt page'')"
  let ?env1 = "\<lparr>e_mkdtemp = str ''/tmp/sf_stage_1'', e_file_get = Inr (),
      e_open_text = Inl (Exc (OtherException (str ''UnicodeDecodeError'')) (str ''invalid start byte'')),
      e_loads = (\<lambda>s. Inl (Exc JSONDecodeError (str ''Expecting value''))),
      e_avro_reader = Inr (\<lambda>k. Stop :: nat step),
      e_parquet_file = Inr ?meta,
      e_read_parquet = Inl ?e,
      e_rmtree = None\<rparr>"
  let ?x = "Exc (OtherException (str ''PermissionError'')) (str ''Permission denied'')"
  let ?env2 = "\<lparr>e_mkdtemp = str ''/tmp/sf_stage_1'',
      e_file_get = Inl (Exc (OtherException (str ''SnowparkSQLException'')) (str ''no such file'')),
      e_open_text = Inr (str ''[]''), e_loads = (\<lambda>s. Inr (JArr [])),
      e_avro_reader = Inr (\<lambda>k. Stop :: nat step),
      e_parquet_file = Inl (Exc (OtherException (str ''ArrowInvalid'')) (str ''not a parquet file''))
        :: py_exc + nat file_meta,
      e_read_parquet = Inr (),
      e_rmtree = Some ?x\<rparr>"
  let ?md = "metadata_view (str ''/tmp/sf_stage_1'' @ str ''/'' @ str ''t.parquet'') ?meta"
  have md: "show_parquet_metadata (e_mkdtemp ?env1 @ str ''/'' @ str ''t.parquet'') (Inr ?meta) = Inr ?md"
    by (simp add: show_parquet_metadata_def metadata_view_def bind_def)
  have ai: "safe_cortex_call ?rt (ParquetMetadata ?md) = str ''ok''"
    by (simp add: safe_cortex_call_def cortex_call_def cleanse_for_cortex_def serialize_def
        bind_def model_output_def iloc0_label_def cell_def)
  have body: "read_file_body ?rt ?env1 (str ''t.parquet'') (str ''parquet'') SampleDataOnly =
           ([Text (safe_cortex_call ?rt (ParquetMetadata ?md))], Inl ?e)"
    by (rule read_file_body_sample_error [OF _ _ md]) simp_all
  have shown: "snd (read_file_request ?rt ?env1 (str ''t.parquet'') (str ''parquet'') SampleDataOnly
                 {str ''/tmp/other''})
        = [Text (str ''ok''), Error (str ''Error reading or analyzing file: corrupt page'')]"
    by (simp add: read_file_request_def Let_def body ai) (simp add: str_def)
  have d: "str ''/tmp/sf_stage_1'' \<noteq> str ''/tmp/other''" by (simp add: str_def)
  from read_file_request_cleanup
    [of ?env1 ?rt "str ''t.parquet''" "str ''parquet''" SampleDataOnly "{str ''/tmp/other''}"]
  have 1: "fst (read_file_request ?rt ?env1 (str ''t.parquet'') (str ''parquet'') SampleDataOnly
                 {str ''/tmp/other''}) = {str ''/tmp/other''}"
    using d by simp
  from read_file_request_cleanup
    [of ?env2 ?rt "str ''t.json''" "str ''json''" Both "{str ''/tmp/other''}" ?x]
  have 2: "fst (read_file_request ?rt ?env2 (str ''t.json'') (str ''json'') Both {str ''/tmp/other''})
        = {str ''/tmp/sf_stage_1'', str ''/tmp/other''}"
    by simp
  from 1 shown 2 show ?thesis by (simp add: prod_eq_iff)
qed

text \<open>
  C8 (as stated) fails when \<open>shutil.rmtree\<close> itself raises: the handler of the
  \<open>finally\<close> block passes over the exception, and the scratch directory persists after
  a request that otherwise succeeded.
\<close>

theorem read_file_request_rmtree_fails:
  "str ''/tmp/sf_stage_1'' \<in> fst (read_file_request
     \<lparr>json_dumps = (\<lambda>r. Inr (str ''[]'')), to_str = (\<lambda>r. Inr (str ''[]'')),
      session_sql = (\<lambda>q. Inr \<lparr>df_columns = [str ''MODEL_OUTPUT''], df_rows = [[str ''empty'']]\<rparr>)\<rparr>
     \<lparr>e_mkdtemp = str ''/tmp/sf_stage_1'',
      e_file_get = Inr (),
      e_open_text = Inr (str ''[]''), e_loads = (\<lambda>s. Inr (JArr [])),
      e_avro_reader = Inr (\<lambda>k. Stop :: nat step),
      e_parquet_file = Inl (Exc (OtherException (str ''ArrowInvalid'')) (str ''not a parquet file''))
        :: py_exc + nat file_meta,
      e_read_parquet = Inr (),
      e_rmtree = Some (Exc (OtherException (str ''PermissionError'')) (str ''Permission denied''))\<rparr>
     (str ''t.json'') (str ''json'') Both {}) \<and>
   snd (read_file_request
     \<lparr>json_dumps = (\<lambda>r. Inr (str ''[]'')), to_str = (\<lambda>r. Inr (str ''[]'')),
      session_sql = (\<lambda>q. Inr \<lparr>df_columns = [str ''MODEL_OUTPUT''], df_rows = [[str ''empty'']]\<rparr>)\<rparr>
     \<lparr>e_mkdtemp = str ''/tmp/sf_stage_1'',
      e_file_get = Inr (),
      e_open_text = Inr (str ''[]''), e_loads = (\<lambda>s. Inr (JArr [])),
      e_avro_reader = Inr (\<lambda>k. Stop :: nat step),
      e_parquet_file = Inl (Exc (OtherException (str ''ArrowInvalid'')) (str ''not a parquet file''))
        :: py_exc + nat file_meta,
      e_read_parquet = Inr (),
      e_rmtree = Some (Exc (OtherException (str ''PermissionError'')) (str ''Permission denied''))\<rparr>
     (str ''t.json'') (str ''json'') Both {}) = [RecordsView [], Text (str ''empty'')]"
  by (simp add: read_file_request_def Let_def read_file_body_def call_def emit_def seq_def
      bind_def json_records_def json_load_def open_text_def as_records_def
      render_json_avro_view_def safe_cortex_call_def cortex_call_def
      cleanse_for_cortex_def serialize_def model_output_def iloc0_label_def cell_def)

end
